theory Spec2Isabelle
  imports Main
begin

section \<open>Data model (types.ts)\<close>

text \<open>
  The enums of \<^verbatim>\<open>types.ts\<close> are datatypes, its interfaces are records. A JavaScript
  \<^verbatim>\<open>number\<close> that holds a score, a counter or a millisecond timestamp is an \<open>int\<close>
  (the integer value of the double); an optional field (\<^verbatim>\<open>displayName?\<close>,
  \<^verbatim>\<open>lastActiveDate?\<close>, \<^verbatim>\<open>examType?\<close>) is an \<open>option\<close>; an array is a list.
\<close>

datatype DifficultyLevel = BEGINNER | INTERMEDIATE | ADVANCED

datatype SubscriptionTier = FREE | PREMIUM | PRO

record QuizQuestion =
  question :: string
  options :: "string list"
  correct_answer :: string

record NextTopic =
  topic :: string
  difficulty :: string

record DocumentAnalysis =
  fileName :: string
  analysis :: string
  date :: int

record LessonContent =
  topic :: string
  lesson :: string
  summary :: "string list"
  quiz :: "QuizQuestion list"
  next_topics :: "NextTopic list"

record QuizScoreRecord =
  topic :: string
  score :: int
  date :: int
  difficulty :: DifficultyLevel

record UserProfile =
  email :: string
  displayName :: "string option"
  learningProgress :: int
  completedTopics :: "string list"
  quizScores :: "QuizScoreRecord list"
  tier :: SubscriptionTier
  streak :: int
  lastActiveDate :: "int option"
  weakTopics :: "string list"
  preferredLevel :: string
  examType :: "string option"
  dailyQuestionCount :: int
  lastQuestionResetDate :: int
  uploadedDocuments :: "DocumentAnalysis list"

section \<open>JavaScript idioms used by the handlers\<close>

text \<open>
  \<^verbatim>\<open>x || d\<close> on a number yields \<open>d\<close> when \<open>x\<close> is falsy, that is when it is \<open>0\<close>.
\<close>

definition orElse :: "int \<Rightarrow> int \<Rightarrow> int" where
  "orElse x d = (if x = 0 then d else x)"

text \<open>
  \<^verbatim>\<open>x + y\<close> on counters is the addition of IEEE 754 doubles: the exact sum, rounded to
  the nearest double, ties to the even significand. Integers up to \<open>2^53\<close> in
  magnitude are doubles; from there on the doubles are \<open>ulp\<close> apart, where \<open>ulp\<close> doubles
  with every binary order of magnitude. \<open>toDouble\<close> rounds an integer to the nearest
  double, and \<open>MAX_SAFE_INTEGER\<close> is \<^verbatim>\<open>Number.MAX_SAFE_INTEGER\<close>, \<open>2^53 - 1\<close>. The
  handlers add 1 to a counter, which never takes a finite double beyond the largest one,
  so no sum becomes \<^verbatim>\<open>Infinity\<close>.
\<close>

definition MAX_SAFE_INTEGER :: int where
  "MAX_SAFE_INTEGER = 9007199254740991"

function ulp :: "int \<Rightarrow> int" where
  "ulp a = (if a < 9007199254740992 then 1 else 2 * ulp (a div 2))"
  by pat_completeness auto
termination
  by (relation "measure nat") auto

declare ulp.simps [simp del]

definition toDouble :: "int \<Rightarrow> int" where
  "toDouble n =
     (let a = \<bar>n\<bar>; u = ulp a; q = a div u; r = a mod u;
          q' = (if 2 * r < u then q else if u < 2 * r then q + 1
                else if even q then q else q + 1)
      in sgn n * (q' * u))"

definition numAdd :: "int \<Rightarrow> int \<Rightarrow> int" where
  "numAdd x y = toDouble (x + y)"

text \<open>
  \<^verbatim>\<open>[...new Set(xs)]\<close>: the elements of \<open>xs\<close> in the order of their first occurrence,
  each once. The accumulator is the set being filled.
\<close>

fun setInsertAll :: "'a list \<Rightarrow> 'a list \<Rightarrow> 'a list" where
  "setInsertAll acc [] = acc"
| "setInsertAll acc (x # xs) =
     setInsertAll (if x \<in> set acc then acc else acc @ [x]) xs"

definition newSet :: "'a list \<Rightarrow> 'a list" where
  "newSet xs = setInsertAll [] xs"

section \<open>Profile transitions (App.tsx)\<close>

text \<open>
  \<^verbatim>\<open>checkAndResetDailyLimit\<close>; the value of \<^verbatim>\<open>Date.now()\<close> is the parameter \<open>now\<close>.
\<close>

definition twentyFourHours :: int where
  "twentyFourHours = 24 * 60 * 60 * 1000"

definition checkAndResetDailyLimit :: "int \<Rightarrow> UserProfile \<Rightarrow> UserProfile" where
  "checkAndResetDailyLimit now profile =
     (let lastReset = orElse (lastQuestionResetDate profile) 0 in
      if now - lastReset \<ge> twentyFourHours
      then profile\<lparr>dailyQuestionCount := 0, lastQuestionResetDate := now\<rparr>
      else profile)"

text \<open>
  \<^verbatim>\<open>incrementQuestionCount\<close>, on the profile held in the application state.
\<close>

definition incrementQuestionCount :: "UserProfile \<Rightarrow> UserProfile" where
  "incrementQuestionCount user =
     user\<lparr>dailyQuestionCount := numAdd (orElse (dailyQuestionCount user) 0) 1\<rparr>"

text \<open>
  \<^verbatim>\<open>recordActivity\<close>, after its guard \<^verbatim>\<open>if (!user || !activeLesson) return\<close> (the
  guard is in \<open>App_recordActivity\<close> below). The parameter \<open>toDateString\<close> stands for
  \<^verbatim>\<open>new Date(ms).toDateString()\<close>, the local calendar date of a timestamp; \<open>now\<close> is the
  value of \<^verbatim>\<open>Date.now()\<close>; \<open>lessonTopic\<close> is \<^verbatim>\<open>activeLesson.topic\<close> and \<open>activeDifficulty\<close>
  the state of that name. \<^verbatim>\<open>!user.lastActiveDate\<close> holds when the field is absent and
  when it is the falsy timestamp \<open>0\<close>.
\<close>

definition recordActivity ::
  "(int \<Rightarrow> 'd) \<Rightarrow> UserProfile \<Rightarrow> string \<Rightarrow> int \<Rightarrow> DifficultyLevel \<Rightarrow> bool \<Rightarrow> int \<Rightarrow> UserProfile"
where
  "recordActivity toDateString user lessonTopic sc activeDifficulty isMasteryOnly now =
     (let isNewDay =
            (case lastActiveDate user of
               None \<Rightarrow> True
             | Some l \<Rightarrow> l = 0 \<or> toDateString l \<noteq> toDateString now);
          newScoreRecord =
            \<lparr>topic = lessonTopic, score = sc, date = now, difficulty = activeDifficulty\<rparr>;
          weak =
            (if sc < 70 \<and> lessonTopic \<notin> set (weakTopics user)
             then weakTopics user @ [lessonTopic]
             else if sc \<ge> 85 then filter (\<lambda>t. t \<noteq> lessonTopic) (weakTopics user)
             else weakTopics user)
      in user\<lparr>
           learningProgress :=
             min 100 (learningProgress user + (if isMasteryOnly then 2 else 5)),
           completedTopics := newSet (completedTopics user @ [lessonTopic]),
           quizScores := quizScores user @ [newScoreRecord],
           streak :=
             (if isNewDay then numAdd (orElse (streak user) 0) 1 else orElse (streak user) 1),
           lastActiveDate := Some now,
           weakTopics := weak\<rparr>)"

text \<open>
  The handlers as \<^verbatim>\<open>App\<close> runs them, on its state: each returns without effect when
  no user is signed in (and, for \<^verbatim>\<open>recordActivity\<close>, when no lesson is active), and
  otherwise stores the updated profile (\<^verbatim>\<open>handleUpdateUser\<close>).
\<close>

record AppState =
  user :: "UserProfile option"
  activeLesson :: "LessonContent option"
  activeDifficulty :: DifficultyLevel

definition handleUpdateUser :: "UserProfile \<Rightarrow> AppState \<Rightarrow> AppState" where
  "handleUpdateUser updatedUser st = st\<lparr>user := Some updatedUser\<rparr>"

definition App_incrementQuestionCount :: "AppState \<Rightarrow> AppState" where
  "App_incrementQuestionCount st =
     (case user st of
        None \<Rightarrow> st
      | Some u \<Rightarrow> handleUpdateUser (incrementQuestionCount u) st)"

definition App_recordActivity :: "(int \<Rightarrow> 'd) \<Rightarrow> int \<Rightarrow> bool \<Rightarrow> int \<Rightarrow> AppState \<Rightarrow> AppState" where
  "App_recordActivity toDateString sc isMasteryOnly now st =
     (case user st of
        None \<Rightarrow> st
      | Some u \<Rightarrow>
          (case activeLesson st of
             None \<Rightarrow> st
           | Some l \<Rightarrow>
               handleUpdateUser
                 (recordActivity toDateString u (LessonContent.topic l) sc
                    (activeDifficulty st) isMasteryOnly now) st))"

text \<open>
  Modelled from the spec: \<^verbatim>\<open>mockAuth.upgradeTier\<close> (services/firebaseService.ts), whose
  code is not part of the sources at hand. The specification says that the operation
  sets \<open>tier = targetTier\<close> once the entitlement check approves.
\<close>

definition upgradeTier :: "UserProfile \<Rightarrow> SubscriptionTier \<Rightarrow> UserProfile" where
  "upgradeTier profile targetTier = profile\<lparr>tier := targetTier\<rparr>"

text \<open>
  Modelled from the spec: the profile that \<^verbatim>\<open>mockAuth.register\<close> creates
  (services/firebaseService.ts, not part of the sources at hand). The specification says
  that a profile is created at registration with all counters zeroed; the fields it does
  not fix are parameters.
\<close>

definition freshProfile ::
  "string \<Rightarrow> string option \<Rightarrow> SubscriptionTier \<Rightarrow> string \<Rightarrow> string option \<Rightarrow> int \<Rightarrow> UserProfile"
where
  "freshProfile em dn t lvl ex created =
     \<lparr>email = em, displayName = dn, learningProgress = 0, completedTopics = [],
      quizScores = [], tier = t, streak = 0, lastActiveDate = None, weakTopics = [],
      preferredLevel = lvl, examType = ex, dailyQuestionCount = 0,
      lastQuestionResetDate = created, uploadedDocuments = []\<rparr>"

section \<open>Feature gating (Dashboard.tsx, LessonView.tsx, Profile.tsx)\<close>

text \<open>\<^verbatim>\<open>Dashboard.isLevelLocked\<close>.\<close>

definition isLevelLocked :: "UserProfile \<Rightarrow> DifficultyLevel \<Rightarrow> bool" where
  "isLevelLocked u lv = (if lv = BEGINNER then False else tier u = FREE)"

text \<open>
  \<^verbatim>\<open>LessonView\<close>: the component receives \<open>tier\<close> and the optional \<open>userProfile\<close> as two
  props; \<^verbatim>\<open>App\<close> passes \<open>user.tier\<close> and \<open>user\<close>.
\<close>

datatype Tab = TabLearn | TabReview | TabAsk | TabExam | TabVoice | TabNext

definition isFree :: "SubscriptionTier \<Rightarrow> bool" where
  "isFree t = (t = FREE)"

definition questionCount :: "UserProfile option \<Rightarrow> int" where
  "questionCount userProfile =
     (case userProfile of None \<Rightarrow> 0 | Some u \<Rightarrow> orElse (dailyQuestionCount u) 0)"

definition hasExceededLimit :: "SubscriptionTier \<Rightarrow> UserProfile option \<Rightarrow> bool" where
  "hasExceededLimit t userProfile = (isFree t \<and> questionCount userProfile \<ge> 100)"

definition isGated :: "SubscriptionTier \<Rightarrow> Tab \<Rightarrow> bool" where
  "isGated t tabId = (isFree t \<and> tabId = TabExam)"

definition isLimited :: "SubscriptionTier \<Rightarrow> UserProfile option \<Rightarrow> Tab \<Rightarrow> bool" where
  "isLimited t userProfile tabId = (isFree t \<and> tabId = TabAsk \<and> hasExceededLimit t userProfile)"

text \<open>What the \<^verbatim>\<open>exam\<close> and \<^verbatim>\<open>ask\<close> tabs render.\<close>

datatype Pane = LockScreen string | QuizView | ChatView

definition examPane :: "SubscriptionTier \<Rightarrow> Pane" where
  "examPane t = (if isFree t then LockScreen ''Exam Quizzes Restricted'' else QuizView)"

definition askPane :: "SubscriptionTier \<Rightarrow> UserProfile option \<Rightarrow> Pane" where
  "askPane t userProfile =
     (if hasExceededLimit t userProfile then LockScreen ''Daily Limit Reached'' else ChatView)"

text \<open>
  \<^verbatim>\<open>handleSendMessage\<close> up to the call of the tutor: it returns early, changing
  nothing and raising nothing, on a blank input, while an answer is being typed or
  streamed, and when the limit is exceeded. Otherwise it clears the input, appends the
  trimmed message to the history and calls \<^verbatim>\<open>onAskQuestion\<close>; the second component of
  the result says whether that call was made.

  The texts of the chat are JavaScript strings, lists of UTF-16 code units.
  \<^verbatim>\<open>String.prototype.trim\<close> removes, at both ends, the code units of ECMAScript's
  WhiteSpace (TAB, VT, FF, the byte order mark U+FEFF and the space separators U+0020,
  U+00A0, U+1680, U+2000 to U+200A, U+202F, U+205F, U+3000) and LineTerminator (LF, CR,
  U+2028, U+2029); all of them are single code units.
\<close>

datatype Role = RoleUser | RoleModel

type_synonym jsString = "nat list"

record ChatState =
  chatInput :: jsString
  chatHistory :: "(Role \<times> jsString) list"
  isTyping :: bool
  streamingMessage :: jsString

definition isWhiteSpace :: "nat \<Rightarrow> bool" where
  "isWhiteSpace c =
     (c \<in> set [0x09, 0x0A, 0x0B, 0x0C, 0x0D, 0x20, 0xA0, 0x1680, 0x2028, 0x2029,
               0x202F, 0x205F, 0x3000, 0xFEFF]
      \<or> (0x2000 \<le> c \<and> c \<le> 0x200A))"

definition trim :: "jsString \<Rightarrow> jsString" where
  "trim s = rev (dropWhile isWhiteSpace (rev (dropWhile isWhiteSpace s)))"

text \<open>The code units of a text written in ASCII.\<close>

definition codeUnits :: "string \<Rightarrow> jsString" where
  "codeUnits s = map of_char s"

definition handleSendMessage ::
  "SubscriptionTier \<Rightarrow> UserProfile option \<Rightarrow> ChatState \<Rightarrow> ChatState \<times> bool"
where
  "handleSendMessage t userProfile st =
     (if trim (chatInput st) = [] \<or> isTyping st \<or> streamingMessage st \<noteq> []
         \<or> hasExceededLimit t userProfile
      then (st, False)
      else (let userMsg = trim (chatInput st)
            in (st\<lparr>chatInput := [],
                    chatHistory := chatHistory st @ [(RoleUser, userMsg)],
                    isTyping := True\<rparr>, True)))"

text \<open>
  \<^verbatim>\<open>Profile.handleFileSelect\<close> up to the start of the analysis, and the profile update
  made when the analysis arrives.
\<close>

definition isPremium :: "UserProfile \<Rightarrow> bool" where
  "isPremium u = (tier u \<noteq> FREE)"

datatype FileSelectOutcome = NoFile | TriggerUpgrade SubscriptionTier | StartAnalysis

definition handleFileSelect :: "UserProfile \<Rightarrow> string option \<Rightarrow> FileSelectOutcome" where
  "handleFileSelect u file =
     (case file of
        None \<Rightarrow> NoFile
      | Some f \<Rightarrow> if \<not> isPremium u then TriggerUpgrade PREMIUM else StartAnalysis)"

definition addDocument :: "UserProfile \<Rightarrow> DocumentAnalysis \<Rightarrow> UserProfile" where
  "addDocument u newDoc = u\<lparr>uploadedDocuments := newDoc # uploadedDocuments u\<rparr>"

section \<open>Runs of the profile state machine\<close>

text \<open>A recorded activity: topic, score, difficulty, mastery flag, time of the call.\<close>

type_synonym Activity = "string \<times> int \<times> DifficultyLevel \<times> bool \<times> int"

fun recordOne :: "(int \<Rightarrow> 'd) \<Rightarrow> UserProfile \<Rightarrow> Activity \<Rightarrow> UserProfile" where
  "recordOne toDateString u (lessonTopic, sc, lv, isMasteryOnly, now) =
     recordActivity toDateString u lessonTopic sc lv isMasteryOnly now"

definition recordAll :: "(int \<Rightarrow> 'd) \<Rightarrow> UserProfile \<Rightarrow> Activity list \<Rightarrow> UserProfile" where
  "recordAll toDateString u acts = foldl (recordOne toDateString) u acts"

text \<open>The transition operations, and a run of any of them.\<close>

datatype Transition =
    ResetDailyQuota int
  | IncrementQuestionCount
  | RecordActivity Activity
  | UpgradeTier SubscriptionTier
  | AddDocument DocumentAnalysis

fun applyTransition :: "(int \<Rightarrow> 'd) \<Rightarrow> UserProfile \<Rightarrow> Transition \<Rightarrow> UserProfile" where
  "applyTransition toDateString u (ResetDailyQuota now) = checkAndResetDailyLimit now u"
| "applyTransition toDateString u IncrementQuestionCount = incrementQuestionCount u"
| "applyTransition toDateString u (RecordActivity a) = recordOne toDateString u a"
| "applyTransition toDateString u (UpgradeTier t) = upgradeTier u t"
| "applyTransition toDateString u (AddDocument d) = addDocument u d"

definition run :: "(int \<Rightarrow> 'd) \<Rightarrow> UserProfile \<Rightarrow> Transition list \<Rightarrow> UserProfile" where
  "run toDateString u ops = foldl (applyTransition toDateString) u ops"

text \<open>
  The clock of a run: \<open>nonzeroClock ops\<close> says that no activity of the run was recorded
  at the timestamp 0 (\<^verbatim>\<open>Date.now()\<close> is 0 only in the first millisecond of 1970).
\<close>

fun recordedAt :: "Transition \<Rightarrow> int option" where
  "recordedAt (RecordActivity (lessonTopic, sc, lv, isMasteryOnly, now)) = Some now"
| "recordedAt (ResetDailyQuota now) = None"
| "recordedAt IncrementQuestionCount = None"
| "recordedAt (UpgradeTier t) = None"
| "recordedAt (AddDocument d) = None"

definition nonzeroClock :: "Transition list \<Rightarrow> bool" where
  "nonzeroClock ops = list_all (\<lambda>x. recordedAt x \<noteq> Some 0) ops"

text \<open>
  What holds of streak and last activity date along such a run: before the first
  activity the streak is 0; afterwards the date is not 0 and the streak is at least 1.
\<close>

definition streakStarted :: "UserProfile \<Rightarrow> bool" where
  "streakStarted u =
     (case lastActiveDate u of None \<Rightarrow> streak u = 0 | Some l \<Rightarrow> l \<noteq> 0 \<and> 1 \<le> streak u)"

text \<open>A concrete calendar for examples: the UTC day number of a timestamp.\<close>

definition utcDay :: "int \<Rightarrow> int" where
  "utcDay ms = ms div 86400000"

section \<open>Reading the score history\<close>

text \<open>
  The most recently recorded score of a topic in a chronological score history, if the
  topic has one.
\<close>

definition mostRecentScore :: "string \<Rightarrow> QuizScoreRecord list \<Rightarrow> int option" where
  "mostRecentScore t qs =
     (case filter (\<lambda>r. topic r = t) qs of
        [] \<Rightarrow> None
      | r # rs \<Rightarrow> Some (score (last (r # rs))))"

text \<open>
  \<open>belowThenNotRecovered t qs\<close>: the history \<open>qs\<close> (oldest first) holds a score below 70
  for topic \<open>t\<close> such that no record of \<open>t\<close> after it has a score of 85 or more.
\<close>

fun belowThenNotRecovered :: "string \<Rightarrow> QuizScoreRecord list \<Rightarrow> bool" where
  "belowThenNotRecovered t [] = False"
| "belowThenNotRecovered t (r # rs) =
     ((topic r = t \<and> score r < 70 \<and> list_all (\<lambda>r'. topic r' \<noteq> t \<or> score r' < 85) rs)
      \<or> belowThenNotRecovered t rs)"

text \<open>
  The membership condition in the words of the specification: the most recently
  recorded score of the topic is below 70 (no record of the topic is later than its most
  recent one, so "no later score of 85 or more" adds nothing).
\<close>

definition weakAsStated :: "string \<Rightarrow> QuizScoreRecord list \<Rightarrow> bool" where
  "weakAsStated t qs = (case mostRecentScore t qs of None \<Rightarrow> False | Some s \<Rightarrow> s < 70)"

text \<open>The score record that an activity appends.\<close>

fun scoreRecordOf :: "Activity \<Rightarrow> QuizScoreRecord" where
  "scoreRecordOf (lessonTopic, sc, lv, isMasteryOnly, now) =
     \<lparr>topic = lessonTopic, score = sc, date = now, difficulty = lv\<rparr>"

text \<open>The invariant that ties the completed topics to the score history.\<close>

definition topicsCovered :: "UserProfile \<Rightarrow> bool" where
  "topicsCovered u = (set (map topic (quizScores u)) \<subseteq> set (completedTopics u))"

section \<open>Example profiles\<close>

definition learner :: UserProfile where
  "learner = freshProfile ''learner@example.org'' None FREE ''University'' None 1700000000000"

text \<open>
  Timestamps of the examples: 1700000000000 and 1700003600000 are one hour apart on UTC
  day 19675; 1700086400000 is on the next day.
\<close>

definition dayOne :: int where
  "dayOne = 1700000000000"

definition dayOneLater :: int where
  "dayOneLater = 1700003600000"

definition dayTwo :: int where
  "dayTwo = 1700086400000"

text \<open>A free learner who has asked 99 questions, the last quota reset one second ago.\<close>

definition askingLearner :: UserProfile where
  "askingLearner = learner\<lparr>dailyQuestionCount := 99, lastQuestionResetDate := dayOneLater - 1000\<rparr>"

definition typedQuestion :: ChatState where
  "typedQuestion = \<lparr>chatInput = codeUnits '' Why? '', chatHistory = [], isTyping = False,
     streamingMessage = []\<rparr>"

text \<open>An input of a no-break space and a space.\<close>

definition typedSpaces :: ChatState where
  "typedSpaces = \<lparr>chatInput = [0xA0, 0x20], chatHistory = [], isTyping = False,
     streamingMessage = []\<rparr>"

text \<open>
  Three days of mastery acknowledgements, the last of them on the first day of the
  examples: a run that ends with a streak of three.
\<close>

definition threeDays :: "Transition list" where
  "threeDays =
     [RecordActivity (''Calculus'', 100, BEGINNER, True, dayOne - 172800000),
      RecordActivity (''Algebra'', 100, BEGINNER, True, dayOne - 86400000),
      IncrementQuestionCount,
      RecordActivity (''Geometry'', 100, BEGINNER, True, dayOne)]"

definition streakLearner :: UserProfile where
  "streakLearner = run utcDay learner threeDays"

text \<open>A learner after a run that mixes the transitions.\<close>

definition busyLearner :: UserProfile where
  "busyLearner = run utcDay learner
     [RecordActivity (''Calculus'', 60, BEGINNER, False, dayOne),
      IncrementQuestionCount,
      UpgradeTier PREMIUM,
      RecordActivity (''Algebra'', 90, INTERMEDIATE, False, dayOneLater),
      ResetDailyQuota dayTwo,
      RecordActivity (''Calculus'', 100, BEGINNER, True, dayTwo)]"

section \<open>Auxiliary facts\<close>

lemma ulp_small: "a < 9007199254740992 \<Longrightarrow> ulp a = 1"
  by (simp add: ulp.simps)

lemma ulp_pos: "0 < ulp a"
  by (induction a rule: ulp.induct) (subst ulp.simps, simp)

lemma ulp_le: "1 \<le> a \<Longrightarrow> ulp a \<le> a"
proof (induction a rule: ulp.induct)
  case (1 a)
  show ?case
  proof (cases "a < 9007199254740992")
    case True
    with "1.prems" show ?thesis by (simp add: ulp_small)
  next
    case False
    then have "1 \<le> a div 2" by simp
    with "1.IH" False have "ulp (a div 2) \<le> a div 2" by simp
    moreover have "ulp a = 2 * ulp (a div 2)" using False by (subst ulp.simps) simp
    ultimately show ?thesis by simp
  qed
qed

lemma toDouble_exact: "\<bar>n\<bar> \<le> 9007199254740992 \<Longrightarrow> toDouble n = n"
proof (cases "\<bar>n\<bar> < 9007199254740992")
  case True
  then show ?thesis by (simp add: toDouble_def ulp_small Let_def mult_sgn_abs)
next
  case False
  assume "\<bar>n\<bar> \<le> 9007199254740992"
  with False have a: "\<bar>n\<bar> = 9007199254740992" by simp
  have u: "ulp 9007199254740992 = 2"
    by (subst ulp.simps) (simp add: ulp_small)
  from a have "n = 9007199254740992 \<or> n = - 9007199254740992" by arith
  then show ?thesis
    by (auto simp: toDouble_def u Let_def)
qed

lemma toDouble_pos: "0 < n \<Longrightarrow> 0 < toDouble n"
proof -
  assume n: "0 < n"
  define u where "u = ulp n"
  define q where "q = n div u"
  define q' where "q' = (if 2 * (n mod u) < u then q else if u < 2 * (n mod u) then q + 1
                         else if even q then q else q + 1)"
  have up: "0 < u" unfolding u_def by (rule ulp_pos)
  have "u \<le> n" unfolding u_def using n by (intro ulp_le) simp
  then have "u div u \<le> n div u" using up by (rule zdiv_mono1)
  then have "1 \<le> q" using up by (simp add: q_def)
  then have "1 \<le> q'" by (simp add: q'_def)
  with up have "0 < q' * u" by simp
  moreover have "toDouble n = q' * u"
    using n by (simp add: toDouble_def Let_def q'_def q_def u_def)
  ultimately show ?thesis by simp
qed

lemma numAdd_exact: "\<bar>x + y\<bar> \<le> 9007199254740992 \<Longrightarrow> numAdd x y = x + y"
  by (simp add: numAdd_def toDouble_exact)

text \<open>Beyond \<open>2^53\<close> the sum is rounded: \<open>2^53 + 1\<close> is \<open>2^53\<close>, \<open>(2^53 + 2) + 1\<close> is \<open>2^53 + 4\<close>.\<close>

lemma numAdd_rounds:
  "numAdd 9007199254740992 1 = 9007199254740992"
  "numAdd 9007199254740994 1 = 9007199254740996"
  by (simp_all add: numAdd_def toDouble_def ulp.simps [of 9007199254740993]
      ulp.simps [of 9007199254740995] ulp_small Let_def)

lemma set_setInsertAll: "set (setInsertAll acc xs) = set acc \<union> set xs"
  by (induction xs arbitrary: acc) auto

lemma distinct_setInsertAll: "distinct acc \<Longrightarrow> distinct (setInsertAll acc xs)"
  by (induction xs arbitrary: acc) auto

lemma set_newSet: "set (newSet xs) = set xs"
  by (simp add: newSet_def set_setInsertAll)

lemma distinct_newSet: "distinct (newSet xs)"
  by (simp add: newSet_def distinct_setInsertAll)

lemma belowThenNotRecovered_snoc:
  "belowThenNotRecovered t (qs @ [r]) =
     (if topic r = t then score r < 70 \<or> (belowThenNotRecovered t qs \<and> score r < 85)
      else belowThenNotRecovered t qs)"
  by (induction qs) auto

lemma weakTopics_recordActivity:
  "weakTopics (recordActivity D u tp sc lv m now) =
     (if sc < 70 \<and> tp \<notin> set (weakTopics u) then weakTopics u @ [tp]
      else if 85 \<le> sc then filter (\<lambda>t. t \<noteq> tp) (weakTopics u)
      else weakTopics u)"
  by (simp add: recordActivity_def Let_def)

lemma quizScores_recordActivity:
  "quizScores (recordActivity D u tp sc lv m now) =
     quizScores u @ [\<lparr>topic = tp, score = sc, date = now, difficulty = lv\<rparr>]"
  by (simp add: recordActivity_def Let_def)

lemma completedTopics_recordActivity:
  "completedTopics (recordActivity D u tp sc lv m now) = newSet (completedTopics u @ [tp])"
  by (simp add: recordActivity_def Let_def)

lemma learningProgress_recordActivity:
  "learningProgress (recordActivity D u tp sc lv m now) =
     min 100 (learningProgress u + (if m then 2 else 5))"
  by (simp add: recordActivity_def Let_def)

lemma streak_recordActivity:
  "streak (recordActivity D u tp sc lv m now) =
     (if (case lastActiveDate u of None \<Rightarrow> True | Some l \<Rightarrow> l = 0 \<or> D l \<noteq> D now)
      then numAdd (orElse (streak u) 0) 1 else orElse (streak u) 1)"
  by (simp add: recordActivity_def Let_def)

lemma lastActiveDate_recordActivity:
  "lastActiveDate (recordActivity D u tp sc lv m now) = Some now"
  by (simp add: recordActivity_def Let_def)

lemma streakStarted_recordActivity:
  assumes "streakStarted u" and "now \<noteq> 0"
  shows "streakStarted (recordActivity D u tp sc lv m now)"
proof (cases "lastActiveDate u")
  case None
  with assms show ?thesis
    by (simp add: streakStarted_def lastActiveDate_recordActivity streak_recordActivity
        orElse_def numAdd_exact)
next
  case (Some l)
  with assms have s: "1 \<le> streak u" by (simp add: streakStarted_def)
  then have "0 < toDouble (streak u + 1)" by (intro toDouble_pos) simp
  with s Some assms show ?thesis
    by (simp add: streakStarted_def lastActiveDate_recordActivity streak_recordActivity
        orElse_def numAdd_def)
qed

lemma streakStarted_applyTransition:
  assumes "streakStarted u" and "recordedAt x \<noteq> Some 0"
  shows "streakStarted (applyTransition D u x)"
proof (cases x)
  case (RecordActivity a)
  obtain tp sc lv m now where a: "a = (tp, sc, lv, m, now)" by (cases a)
  with assms RecordActivity show ?thesis
    by (simp add: streakStarted_recordActivity)
qed (use assms in \<open>auto simp: streakStarted_def checkAndResetDailyLimit_def Let_def
    incrementQuestionCount_def upgradeTier_def addDocument_def split: option.splits\<close>)

lemma streakStarted_run:
  "streakStarted u \<Longrightarrow> nonzeroClock ops \<Longrightarrow> streakStarted (run D u ops)"
  by (induction ops rule: rev_induct)
     (simp_all add: run_def nonzeroClock_def streakStarted_applyTransition)

lemma recordAll_snoc:
  "recordAll D u (acts @ [a]) = recordOne D (recordAll D u acts) a"
  by (simp add: recordAll_def)

lemma run_snoc:
  "run D u (ops @ [x]) = applyTransition D (run D u ops) x"
  by (simp add: run_def)

lemma weak_recordActivity_step:
  assumes "\<And>t. t \<in> set (weakTopics u) \<longleftrightarrow> belowThenNotRecovered t (quizScores u)"
  shows "t \<in> set (weakTopics (recordActivity D u tp sc lv m now)) \<longleftrightarrow>
         belowThenNotRecovered t (quizScores (recordActivity D u tp sc lv m now))"
  using assms
  by (auto simp: weakTopics_recordActivity quizScores_recordActivity
      belowThenNotRecovered_snoc)

lemma weak_recordAll:
  assumes "\<And>t. t \<in> set (weakTopics u) \<longleftrightarrow> belowThenNotRecovered t (quizScores u)"
  shows "t \<in> set (weakTopics (recordAll D u acts)) \<longleftrightarrow>
         belowThenNotRecovered t (quizScores (recordAll D u acts))"
proof (induction acts arbitrary: t rule: rev_induct)
  case Nil
  show ?case by (simp add: recordAll_def assms)
next
  case (snoc a acts)
  obtain tp sc lv m now where a: "a = (tp, sc, lv, m, now)" by (cases a)
  show ?case
    unfolding recordAll_snoc a recordOne.simps
    by (rule weak_recordActivity_step) (rule snoc.IH)
qed

lemma quizScores_recordAll:
  "quizScores (recordAll D u acts) = quizScores u @ map scoreRecordOf acts"
proof (induction acts rule: rev_induct)
  case Nil
  show ?case by (simp add: recordAll_def)
next
  case (snoc a acts)
  obtain tp sc lv m now where a: "a = (tp, sc, lv, m, now)" by (cases a)
  show ?case
    by (simp add: recordAll_snoc a quizScores_recordActivity snoc.IH)
qed

lemma topicsCovered_recordActivity:
  "topicsCovered u \<Longrightarrow> topicsCovered (recordActivity D u tp sc lv m now)"
  by (auto simp: topicsCovered_def quizScores_recordActivity
      completedTopics_recordActivity set_newSet)

lemma topicsCovered_applyTransition:
  "topicsCovered u \<Longrightarrow> topicsCovered (applyTransition D u x)"
proof (cases x)
  case (RecordActivity a)
  assume cov: "topicsCovered u"
  obtain tp sc lv m now where a: "a = (tp, sc, lv, m, now)" by (cases a)
  show ?thesis
    by (simp add: RecordActivity a topicsCovered_recordActivity cov)
qed (auto simp: topicsCovered_def checkAndResetDailyLimit_def Let_def
    incrementQuestionCount_def upgradeTier_def addDocument_def)

lemma topicsCovered_run:
  "topicsCovered u \<Longrightarrow> topicsCovered (run D u ops)"
  by (induction ops rule: rev_induct)
     (simp_all add: run_def topicsCovered_applyTransition)

lemma learningProgress_recordAll:
  "0 \<le> learningProgress u \<and> learningProgress u \<le> 100 \<Longrightarrow>
   learningProgress u \<le> learningProgress (recordAll D u acts) \<and>
   learningProgress (recordAll D u acts) \<le> 100"
proof (induction acts rule: rev_induct)
  case Nil
  then show ?case by (simp add: recordAll_def)
next
  case (snoc a acts)
  obtain tp sc lv m now where a: "a = (tp, sc, lv, m, now)" by (cases a)
  from snoc show ?case
    by (auto simp: recordAll_snoc a learningProgress_recordActivity)
qed

lemma belowThenNotRecovered_split:
  "belowThenNotRecovered t qs \<longleftrightarrow>
     (\<exists>xs r ys. qs = xs @ r # ys \<and> topic r = t \<and> score r < 70
        \<and> (\<forall>r' \<in> set ys. topic r' = t \<longrightarrow> score r' < 85))"
proof (induction qs)
  case Nil
  show ?case by simp
next
  case (Cons q qs)
  show ?case
  proof
    assume "belowThenNotRecovered t (q # qs)"
    then consider
        (here) "topic q = t" "score q < 70" "\<forall>r' \<in> set qs. topic r' = t \<longrightarrow> score r' < 85"
      | (later) "belowThenNotRecovered t qs"
      by (auto simp: list_all_iff)
    then show "\<exists>xs r ys. q # qs = xs @ r # ys \<and> topic r = t \<and> score r < 70
        \<and> (\<forall>r' \<in> set ys. topic r' = t \<longrightarrow> score r' < 85)"
    proof cases
      case here
      then have "q # qs = [] @ q # qs \<and> topic q = t \<and> score q < 70
        \<and> (\<forall>r' \<in> set qs. topic r' = t \<longrightarrow> score r' < 85)" by simp
      then show ?thesis by blast
    next
      case later
      with Cons.IH obtain xs r ys where "qs = xs @ r # ys" "topic r = t" "score r < 70"
        "\<forall>r' \<in> set ys. topic r' = t \<longrightarrow> score r' < 85" by blast
      then have "q # qs = (q # xs) @ r # ys \<and> topic r = t \<and> score r < 70
        \<and> (\<forall>r' \<in> set ys. topic r' = t \<longrightarrow> score r' < 85)" by simp
      then show ?thesis by blast
    qed
  next
    assume "\<exists>xs r ys. q # qs = xs @ r # ys \<and> topic r = t \<and> score r < 70
        \<and> (\<forall>r' \<in> set ys. topic r' = t \<longrightarrow> score r' < 85)"
    then obtain xs r ys where s: "q # qs = xs @ r # ys" and r: "topic r = t" "score r < 70"
        and ys: "\<forall>r' \<in> set ys. topic r' = t \<longrightarrow> score r' < 85" by blast
    show "belowThenNotRecovered t (q # qs)"
    proof (cases xs)
      case Nil
      with s r ys show ?thesis by (auto simp: list_all_iff)
    next
      case (Cons x xs')
      with s have "qs = xs' @ r # ys" by simp
      with r ys Cons.IH have "belowThenNotRecovered t qs" by blast
      then show ?thesis by simp
    qed
  qed
qed

lemma App_recordActivity_guard:
  "user st = None \<or> activeLesson st = None \<Longrightarrow> App_recordActivity D sc m now st = st"
  by (auto simp: App_recordActivity_def split: option.splits)

lemma App_recordActivity_user:
  "user st = Some u \<Longrightarrow> activeLesson st = Some l \<Longrightarrow>
   user (App_recordActivity D sc m now st)
     = Some (recordActivity D u (LessonContent.topic l) sc (activeDifficulty st) m now)"
  by (simp add: App_recordActivity_def handleUpdateUser_def)

lemma App_incrementQuestionCount_user:
  "user (App_incrementQuestionCount st) = map_option incrementQuestionCount (user st)"
  by (simp add: App_incrementQuestionCount_def handleUpdateUser_def split: option.splits)

lemmas eval_defs = recordAll_def recordActivity_def Let_def freshProfile_def newSet_def
  orElse_def numAdd_exact utcDay_def learner_def dayOne_def dayOneLater_def dayTwo_def

section \<open>Weak topics\<close>

text \<open>
  C1, as the code has it. For every profile built from a fresh profile by a sequence of
  \<open>recordActivity\<close> calls, the score history is the sequence of the recorded activities,
  and a topic is a member of \<open>weakTopics\<close> if and only if some score below 70 has been
  recorded for it and no score of 85 or more has been recorded for it after that one
  (stated with the executable predicate and, again, by splitting the history at that
  score).
\<close>

theorem weakTopics_iff_below_then_not_recovered:
  "quizScores (recordAll D (freshProfile em dn t lvl ex created) acts) = map scoreRecordOf acts
   \<and> (tp \<in> set (weakTopics (recordAll D (freshProfile em dn t lvl ex created) acts))
        \<longleftrightarrow> belowThenNotRecovered tp (map scoreRecordOf acts))
   \<and> (tp \<in> set (weakTopics (recordAll D (freshProfile em dn t lvl ex created) acts))
        \<longleftrightarrow> (\<exists>earlier r later. map scoreRecordOf acts = earlier @ r # later
               \<and> topic r = tp \<and> score r < 70
               \<and> (\<forall>r' \<in> set later. topic r' = tp \<longrightarrow> score r' < 85)))"
proof -
  let ?p = "freshProfile em dn t lvl ex created"
  have qs: "quizScores (recordAll D ?p acts) = map scoreRecordOf acts"
    by (simp add: quizScores_recordAll freshProfile_def)
  have "tp \<in> set (weakTopics (recordAll D ?p acts))
          \<longleftrightarrow> belowThenNotRecovered tp (quizScores (recordAll D ?p acts))"
    by (rule weak_recordAll) (simp add: freshProfile_def)
  with qs have w: "tp \<in> set (weakTopics (recordAll D ?p acts))
          \<longleftrightarrow> belowThenNotRecovered tp (map scoreRecordOf acts)"
    by simp
  from qs w show ?thesis
    unfolding belowThenNotRecovered_split [symmetric] by simp
qed

text \<open>
  An instance: a score of 60 for Calculus, a score of 90 for Algebra, then a score of 75
  for Calculus. Calculus is weak, Algebra is not.
\<close>

theorem weakTopics_iff_below_then_not_recovered_witness:
  "''Calculus'' \<in> set (weakTopics (recordAll utcDay learner
      [(''Calculus'', 60, BEGINNER, False, dayOne),
       (''Algebra'', 90, BEGINNER, False, dayOne),
       (''Calculus'', 75, BEGINNER, False, dayOneLater)]))
   \<and> belowThenNotRecovered ''Calculus'' (map scoreRecordOf
      [(''Calculus'', 60, BEGINNER, False, dayOne),
       (''Algebra'', 90, BEGINNER, False, dayOne),
       (''Calculus'', 75, BEGINNER, False, dayOneLater)])
   \<and> ''Algebra'' \<notin> set (weakTopics (recordAll utcDay learner
      [(''Calculus'', 60, BEGINNER, False, dayOne),
       (''Algebra'', 90, BEGINNER, False, dayOne),
       (''Calculus'', 75, BEGINNER, False, dayOneLater)]))"
  using weakTopics_iff_below_then_not_recovered
    [of utcDay "''learner@example.org''" None FREE "''University''" None 1700000000000
      "[(''Calculus'', 60, BEGINNER, False, dayOne),
        (''Algebra'', 90, BEGINNER, False, dayOne),
        (''Calculus'', 75, BEGINNER, False, dayOneLater)]" "''Calculus''"]
  by (simp add: eval_defs)

text \<open>
  The condition in the words of the specification fails after a score of 60 followed by
  a score of 75 for the same topic: the topic is still in \<open>weakTopics\<close>, and its most
  recent score is not below 70.
\<close>

theorem weakTopics_most_recent_score_counterexample:
  "\<not> (''Calculus'' \<in> set (weakTopics (recordAll utcDay learner
          [(''Calculus'', 60, BEGINNER, False, dayOne),
           (''Calculus'', 75, BEGINNER, False, dayOneLater)]))
      \<longleftrightarrow> weakAsStated ''Calculus'' (quizScores (recordAll utcDay learner
          [(''Calculus'', 60, BEGINNER, False, dayOne),
           (''Calculus'', 75, BEGINNER, False, dayOneLater)])))"
  by (simp add: eval_defs weakAsStated_def mostRecentScore_def)

text \<open>
  C2. One \<open>recordActivity\<close> call: a score below 70 for a topic not yet in \<open>weakTopics\<close>
  appends the topic; a score of 85 or more removes the topic (and nothing else); a score
  from 70 up to, not including, 85 leaves \<open>weakTopics\<close> as it was.
\<close>

theorem recordActivity_weakTopics_update:
  "(sc < 70 \<and> tp \<notin> set (weakTopics u) \<longrightarrow>
      weakTopics (recordActivity D u tp sc lv m now) = weakTopics u @ [tp])
   \<and> (85 \<le> sc \<longrightarrow>
      weakTopics (recordActivity D u tp sc lv m now) = filter (\<lambda>t. t \<noteq> tp) (weakTopics u)
      \<and> tp \<notin> set (weakTopics (recordActivity D u tp sc lv m now)))
   \<and> (70 \<le> sc \<and> sc < 85 \<longrightarrow>
      weakTopics (recordActivity D u tp sc lv m now) = weakTopics u)"
  by (simp add: weakTopics_recordActivity)

text \<open>
  The scenario of the specification: 60 for Calculus on an empty \<open>weakTopics\<close> gives
  \<open>[Calculus]\<close>; then 75 keeps it and 90 gives the empty list again.
\<close>

theorem recordActivity_weakTopics_update_witness:
  "weakTopics learner = []
   \<and> weakTopics (recordActivity utcDay learner ''Calculus'' 60 BEGINNER False dayOne)
       = [''Calculus'']
   \<and> weakTopics (recordActivity utcDay
        (recordActivity utcDay learner ''Calculus'' 60 BEGINNER False dayOne)
        ''Calculus'' 75 BEGINNER False dayOneLater) = [''Calculus'']
   \<and> weakTopics (recordActivity utcDay
        (recordActivity utcDay learner ''Calculus'' 60 BEGINNER False dayOne)
        ''Calculus'' 90 BEGINNER False dayOneLater) = []"
  using
    recordActivity_weakTopics_update
      [of 60 "''Calculus''" learner utcDay BEGINNER False dayOne]
    recordActivity_weakTopics_update
      [of 75 "''Calculus''"
          "recordActivity utcDay learner ''Calculus'' 60 BEGINNER False dayOne"
          utcDay BEGINNER False dayOneLater]
    recordActivity_weakTopics_update
      [of 90 "''Calculus''"
          "recordActivity utcDay learner ''Calculus'' 60 BEGINNER False dayOne"
          utcDay BEGINNER False dayOneLater]
  by (simp add: learner_def freshProfile_def)

section \<open>Daily question quota\<close>

text \<open>
  C3. \<open>incrementQuestionCount\<close> adds exactly 1 to \<open>dailyQuestionCount\<close>, with no cap at
  the limit or anywhere else: for every count that is a safe integer
  (\<open>MAX_SAFE_INTEGER\<close> in magnitude at most, where the addition of doubles is exact).
  The limit check of the chat, for the tier and profile that \<^verbatim>\<open>App\<close> passes, holds if
  and only if the tier is FREE and the count is at least 100; for a tier other than FREE
  it fails for every profile. When the check holds, \<open>handleSendMessage\<close> returns its state
  unchanged without asking (a value, not an error) and the tab shows the lock screen;
  when a message is ready to be sent, the question is asked exactly when the check
  fails. A FREE profile at 99 is not yet blocked, reaches 100 by one increment and is
  blocked then.
\<close>

theorem question_limit_gate:
  "(\<bar>dailyQuestionCount u\<bar> \<le> MAX_SAFE_INTEGER \<longrightarrow>
        dailyQuestionCount (incrementQuestionCount u) = dailyQuestionCount u + 1)
   \<and> (hasExceededLimit (tier u) (Some u) \<longleftrightarrow> tier u = FREE \<and> 100 \<le> dailyQuestionCount u)
   \<and> (t \<noteq> FREE \<longrightarrow> \<not> hasExceededLimit t userProfile \<and> askPane t userProfile = ChatView)
   \<and> (hasExceededLimit (tier u) (Some u) \<longrightarrow>
        handleSendMessage (tier u) (Some u) st = (st, False)
        \<and> askPane (tier u) (Some u) = LockScreen ''Daily Limit Reached'')
   \<and> (trim (chatInput st) \<noteq> [] \<and> \<not> isTyping st \<and> streamingMessage st = [] \<longrightarrow>
        (snd (handleSendMessage (tier u) (Some u) st)
           \<longleftrightarrow> \<not> (tier u = FREE \<and> 100 \<le> dailyQuestionCount u)))
   \<and> (tier u = FREE \<and> dailyQuestionCount u = 99 \<longrightarrow>
        \<not> hasExceededLimit (tier u) (Some u)
        \<and> dailyQuestionCount (incrementQuestionCount u) = 100
        \<and> hasExceededLimit (tier (incrementQuestionCount u)) (Some (incrementQuestionCount u)))"
proof -
  have inc: "\<bar>dailyQuestionCount u\<bar> \<le> MAX_SAFE_INTEGER \<Longrightarrow>
      dailyQuestionCount (incrementQuestionCount u) = dailyQuestionCount u + 1"
    by (simp add: incrementQuestionCount_def orElse_def MAX_SAFE_INTEGER_def numAdd_exact)
  have gate: "hasExceededLimit (tier u) (Some u)
      \<longleftrightarrow> tier u = FREE \<and> 100 \<le> dailyQuestionCount u"
    by (auto simp: hasExceededLimit_def isFree_def questionCount_def orElse_def)
  have paid: "t \<noteq> FREE \<Longrightarrow> \<not> hasExceededLimit t userProfile \<and> askPane t userProfile = ChatView"
    by (simp add: hasExceededLimit_def isFree_def askPane_def)
  have held: "hasExceededLimit (tier u) (Some u) \<Longrightarrow>
      handleSendMessage (tier u) (Some u) st = (st, False)
      \<and> askPane (tier u) (Some u) = LockScreen ''Daily Limit Reached''"
    by (simp add: handleSendMessage_def askPane_def)
  have sent: "trim (chatInput st) \<noteq> [] \<and> \<not> isTyping st \<and> streamingMessage st = [] \<Longrightarrow>
      snd (handleSendMessage (tier u) (Some u) st)
        \<longleftrightarrow> \<not> (tier u = FREE \<and> 100 \<le> dailyQuestionCount u)"
    unfolding gate [symmetric] by (simp add: handleSendMessage_def Let_def)
  have last: "tier u = FREE \<and> dailyQuestionCount u = 99 \<Longrightarrow>
      \<not> hasExceededLimit (tier u) (Some u)
      \<and> dailyQuestionCount (incrementQuestionCount u) = 100
      \<and> hasExceededLimit (tier (incrementQuestionCount u)) (Some (incrementQuestionCount u))"
    by (simp add: hasExceededLimit_def isFree_def questionCount_def orElse_def
        incrementQuestionCount_def numAdd_exact)
  from inc gate paid held sent last show ?thesis by blast
qed

text \<open>
  The scenario of the specification: at 99 the typed question is sent, trimmed; after
  the increment the count is 100 and the same question is held back; a PREMIUM profile
  with the same count still sends. An input of white space only is never sent.
\<close>

theorem question_limit_gate_witness:
  "tier askingLearner = FREE \<and> dailyQuestionCount askingLearner = 99
   \<and> \<bar>dailyQuestionCount askingLearner\<bar> \<le> MAX_SAFE_INTEGER
   \<and> handleSendMessage FREE (Some askingLearner) typedQuestion
       = (\<lparr>chatInput = [], chatHistory = [(RoleUser, codeUnits ''Why?'')], isTyping = True,
            streamingMessage = []\<rparr>, True)
   \<and> handleSendMessage FREE (Some askingLearner) typedSpaces = (typedSpaces, False)
   \<and> dailyQuestionCount (incrementQuestionCount askingLearner) = 100
   \<and> hasExceededLimit FREE (Some (incrementQuestionCount askingLearner))
   \<and> handleSendMessage FREE (Some (incrementQuestionCount askingLearner)) typedQuestion
       = (typedQuestion, False)
   \<and> snd (handleSendMessage PREMIUM
        (Some (incrementQuestionCount (upgradeTier askingLearner PREMIUM))) typedQuestion)"
  using
    question_limit_gate [where u = askingLearner and st = typedQuestion and t = PREMIUM]
    question_limit_gate [where u = "incrementQuestionCount askingLearner"
      and st = typedQuestion and t = PRO]
    question_limit_gate
      [where u = "incrementQuestionCount (upgradeTier askingLearner PREMIUM)"
        and st = typedQuestion and t = PREMIUM]
  by (simp add: askingLearner_def typedQuestion_def typedSpaces_def codeUnits_def
      learner_def freshProfile_def MAX_SAFE_INTEGER_def numAdd_exact
      incrementQuestionCount_def upgradeTier_def orElse_def handleSendMessage_def
      hasExceededLimit_def isFree_def questionCount_def trim_def isWhiteSpace_def Let_def)

text \<open>
  C4. \<open>checkAndResetDailyLimit\<close> returns the profile with \<open>dailyQuestionCount = 0\<close> and
  \<open>lastQuestionResetDate = now\<close> (and nothing else changed) when at least 86400000 ms
  have passed since \<open>lastQuestionResetDate\<close>, and the profile itself otherwise; in
  particular it resets when \<open>lastQuestionResetDate = now - 86400001\<close>.
\<close>

theorem checkAndResetDailyLimit_cases:
  "(86400000 \<le> now - lastQuestionResetDate p \<longrightarrow>
      checkAndResetDailyLimit now p = p\<lparr>dailyQuestionCount := 0, lastQuestionResetDate := now\<rparr>
      \<and> dailyQuestionCount (checkAndResetDailyLimit now p) = 0
      \<and> lastQuestionResetDate (checkAndResetDailyLimit now p) = now)
   \<and> (now - lastQuestionResetDate p < 86400000 \<longrightarrow> checkAndResetDailyLimit now p = p)
   \<and> (lastQuestionResetDate p = now - 86400001 \<longrightarrow>
      dailyQuestionCount (checkAndResetDailyLimit now p) = 0
      \<and> lastQuestionResetDate (checkAndResetDailyLimit now p) = now)"
  by (simp add: checkAndResetDailyLimit_def twentyFourHours_def orElse_def Let_def)

text \<open>A reset 86400001 ms after the last one, and no reset one second after it.\<close>

theorem checkAndResetDailyLimit_cases_witness:
  "lastQuestionResetDate (askingLearner\<lparr>lastQuestionResetDate := dayTwo - 86400001\<rparr>)
     = dayTwo - 86400001
   \<and> checkAndResetDailyLimit dayTwo (askingLearner\<lparr>lastQuestionResetDate := dayTwo - 86400001\<rparr>)
     = askingLearner\<lparr>dailyQuestionCount := 0, lastQuestionResetDate := dayTwo\<rparr>
   \<and> dayOneLater - lastQuestionResetDate askingLearner < 86400000
   \<and> checkAndResetDailyLimit dayOneLater askingLearner = askingLearner"
  using checkAndResetDailyLimit_cases
      [of dayTwo "askingLearner\<lparr>lastQuestionResetDate := dayTwo - 86400001\<rparr>"]
    checkAndResetDailyLimit_cases [of dayOneLater askingLearner]
  by (simp add: askingLearner_def)

text \<open>
  C5. For a fixed \<open>now\<close>, applying \<open>checkAndResetDailyLimit\<close> twice gives the same profile
  as applying it once.
\<close>

theorem checkAndResetDailyLimit_idempotent:
  "checkAndResetDailyLimit now (checkAndResetDailyLimit now p) = checkAndResetDailyLimit now p"
  by (simp add: checkAndResetDailyLimit_def twentyFourHours_def orElse_def Let_def)

text \<open>Both cases: a window that has expired, and one that has not.\<close>

theorem checkAndResetDailyLimit_idempotent_witness:
  "checkAndResetDailyLimit (dayTwo + 86400000)
     (checkAndResetDailyLimit (dayTwo + 86400000) askingLearner)
     = askingLearner\<lparr>dailyQuestionCount := 0, lastQuestionResetDate := dayTwo + 86400000\<rparr>
   \<and> checkAndResetDailyLimit dayTwo (checkAndResetDailyLimit dayTwo askingLearner)
     = askingLearner"
  using checkAndResetDailyLimit_idempotent [of "dayTwo + 86400000" askingLearner]
    checkAndResetDailyLimit_idempotent [of dayTwo askingLearner]
  by (simp add: checkAndResetDailyLimit_def twentyFourHours_def orElse_def Let_def
      askingLearner_def learner_def freshProfile_def dayTwo_def dayOneLater_def)

section \<open>Streak\<close>

text \<open>
  C6. Take a profile reached from a fresh profile by a run of the transition operations
  whose activities were not recorded at the timestamp 0, with a streak that is a safe
  integer. \<open>recordActivity\<close> adds exactly 1 to its \<open>streak\<close> when \<open>lastActiveDate\<close> is
  unset (the streak is 1 then) or has a calendar date other than that of \<open>now\<close>, and
  leaves \<open>streak\<close> unchanged when the two calendar dates are equal. The first activity of
  a fresh profile gives a streak of 1, and \<open>lastActiveDate\<close> becomes \<open>now\<close>.
\<close>

theorem recordActivity_streak:
  assumes "u = run D (freshProfile em dn t lvl ex created) ops"
    and "nonzeroClock ops"
    and "streak u \<le> MAX_SAFE_INTEGER"
  shows
    "(lastActiveDate u = None \<longrightarrow>
        streak (recordActivity D u tp sc lv m now) = streak u + 1
        \<and> streak (recordActivity D u tp sc lv m now) = 1)
     \<and> (lastActiveDate u = Some l \<and> D l \<noteq> D now \<longrightarrow>
        streak (recordActivity D u tp sc lv m now) = streak u + 1)
     \<and> (lastActiveDate u = Some l \<and> D l = D now \<longrightarrow>
        streak (recordActivity D u tp sc lv m now) = streak u)
     \<and> streak (recordActivity D (freshProfile em dn t lvl ex created) tp sc lv m now) = 1
     \<and> lastActiveDate (recordActivity D u tp sc lv m now) = Some now"
proof -
  have "streakStarted (freshProfile em dn t lvl ex created)"
    by (simp add: streakStarted_def freshProfile_def)
  with assms(1,2) have inv: "streakStarted u"
    by (simp add: streakStarted_run)
  have unset: "streak (recordActivity D u tp sc lv m now) = streak u + 1
      \<and> streak (recordActivity D u tp sc lv m now) = 1" if "lastActiveDate u = None"
    using that inv
    by (simp add: streakStarted_def streak_recordActivity orElse_def numAdd_exact)
  have newDay: "streak (recordActivity D u tp sc lv m now) = streak u + 1"
    if "lastActiveDate u = Some l \<and> D l \<noteq> D now"
  proof -
    from that inv have "l \<noteq> 0" and "1 \<le> streak u" by (simp_all add: streakStarted_def)
    with that assms(3) show ?thesis
      by (simp add: streak_recordActivity orElse_def MAX_SAFE_INTEGER_def numAdd_exact)
  qed
  have sameDay: "streak (recordActivity D u tp sc lv m now) = streak u"
    if "lastActiveDate u = Some l \<and> D l = D now"
  proof -
    from that inv have "l \<noteq> 0" and "1 \<le> streak u" by (simp_all add: streakStarted_def)
    with that show ?thesis
      by (simp add: streak_recordActivity orElse_def)
  qed
  have first: "streak (recordActivity D (freshProfile em dn t lvl ex created) tp sc lv m now) = 1"
    by (simp add: streak_recordActivity freshProfile_def orElse_def numAdd_exact)
  have stamp: "lastActiveDate (recordActivity D u tp sc lv m now) = Some now"
    by (rule lastActiveDate_recordActivity)
  from unset newDay sameDay first stamp show ?thesis by blast
qed

text \<open>
  The scenario of the specification: after three days of activity the streak is 3 and
  the last activity is a day old; the first call of the next day gives 4, a second call
  one hour later gives 4 again. A fresh profile gets 1.
\<close>

theorem recordActivity_streak_witness:
  "nonzeroClock threeDays
   \<and> streak streakLearner = 3 \<and> lastActiveDate streakLearner = Some dayOne
   \<and> utcDay dayOne \<noteq> utcDay dayTwo
   \<and> streak (recordActivity utcDay streakLearner ''Calculus'' 100 BEGINNER True dayTwo) = 4
   \<and> utcDay dayTwo = utcDay (dayTwo + 3600000)
   \<and> streak (recordActivity utcDay
        (recordActivity utcDay streakLearner ''Calculus'' 100 BEGINNER True dayTwo)
        ''Algebra'' 100 BEGINNER True (dayTwo + 3600000)) = 4
   \<and> streak (recordActivity utcDay learner ''Calculus'' 100 BEGINNER True dayOne) = 1"
proof -
  let ?first = "RecordActivity (''Calculus'', 100, BEGINNER, True, dayTwo)"
  let ?u1 = "recordActivity utcDay streakLearner ''Calculus'' 100 BEGINNER True dayTwo"
  have vals: "streak streakLearner = 3 \<and> lastActiveDate streakLearner = Some dayOne"
    by (simp add: streakLearner_def threeDays_def run_def incrementQuestionCount_def eval_defs)
  have days: "utcDay dayOne \<noteq> utcDay dayTwo \<and> utcDay dayTwo = utcDay (dayTwo + 3600000)"
    by (simp add: utcDay_def dayOne_def dayTwo_def)
  have r0: "streakLearner
      = run utcDay (freshProfile ''learner@example.org'' None FREE ''University'' None 1700000000000)
          threeDays"
    by (simp add: streakLearner_def learner_def)
  have c0: "nonzeroClock threeDays"
    by (simp add: nonzeroClock_def threeDays_def dayOne_def)
  have b0: "streak streakLearner \<le> MAX_SAFE_INTEGER"
    using vals by (simp add: MAX_SAFE_INTEGER_def)
  note t0 = recordActivity_streak [OF r0 c0 b0, where l = dayOne and now = dayTwo
      and tp = "''Calculus''" and sc = 100 and lv = BEGINNER and m = True]
  from t0 vals days have s1: "streak ?u1 = 4" by simp
  have r1: "?u1
      = run utcDay (freshProfile ''learner@example.org'' None FREE ''University'' None 1700000000000)
          (threeDays @ [?first])"
    by (simp add: run_snoc streakLearner_def learner_def)
  have c1: "nonzeroClock (threeDays @ [?first])"
    by (simp add: nonzeroClock_def threeDays_def dayOne_def dayTwo_def)
  have b1: "streak ?u1 \<le> MAX_SAFE_INTEGER"
    using s1 by (simp add: MAX_SAFE_INTEGER_def)
  note t1 = recordActivity_streak [OF r1 c1 b1, where l = dayTwo and now = "dayTwo + 3600000"
      and tp = "''Algebra''" and sc = 100 and lv = BEGINNER and m = True]
  from t1 days s1 have s2: "streak (recordActivity utcDay ?u1 ''Algebra'' 100 BEGINNER True
      (dayTwo + 3600000)) = 4"
    by (simp add: lastActiveDate_recordActivity)
  have s3: "streak (recordActivity utcDay learner ''Calculus'' 100 BEGINNER True dayOne) = 1"
    using recordActivity_streak [OF r0 c0 b0, where now = dayOne and tp = "''Calculus''"
        and sc = 100 and lv = BEGINNER and m = True]
    by (simp add: learner_def)
  from c0 vals days s1 s2 s3 show ?thesis by simp
qed

section \<open>Learning progress\<close>

text \<open>
  C7. For a profile with \<open>learningProgress\<close> in [0,100], \<open>recordActivity\<close> sets it to
  \<open>min 100 (learningProgress + (if isMasteryOnly then 2 else 5))\<close>, and after any number
  of recorded activities it is still in [0,100].
\<close>

theorem learningProgress_clamped:
  "0 \<le> learningProgress u \<and> learningProgress u \<le> 100 \<Longrightarrow>
   learningProgress (recordActivity D u tp sc lv m now)
     = min 100 (learningProgress u + (if m then 2 else 5))
   \<and> learningProgress (recordAll D u acts) \<le> 100
   \<and> 0 \<le> learningProgress (recordAll D u acts)"
  using learningProgress_recordAll [of u D acts]
  by (simp add: learningProgress_recordActivity)

text \<open>From 97: a mastery acknowledgement gives 99, a quiz gives 100, both give 100.\<close>

theorem learningProgress_clamped_witness:
  "learningProgress (learner\<lparr>learningProgress := 97\<rparr>) = 97
   \<and> learningProgress (recordActivity utcDay (learner\<lparr>learningProgress := 97\<rparr>)
        ''Calculus'' 100 BEGINNER True dayOne) = 99
   \<and> learningProgress (recordActivity utcDay (learner\<lparr>learningProgress := 97\<rparr>)
        ''Calculus'' 80 BEGINNER False dayOne) = 100
   \<and> learningProgress (recordAll utcDay (learner\<lparr>learningProgress := 97\<rparr>)
        [(''Calculus'', 100, BEGINNER, True, dayOne),
         (''Calculus'', 80, BEGINNER, False, dayOneLater)]) = 100"
proof -
  have h: "0 \<le> learningProgress (learner\<lparr>learningProgress := 97\<rparr>)
           \<and> learningProgress (learner\<lparr>learningProgress := 97\<rparr>) \<le> 100"
    by simp
  show ?thesis
    using
      learningProgress_clamped [OF h, where D = utcDay and tp = "''Calculus''" and sc = 100
        and lv = BEGINNER and m = True and now = dayOne
        and acts = "[(''Calculus'', 100, BEGINNER, True, dayOne),
                     (''Calculus'', 80, BEGINNER, False, dayOneLater)]"]
      learningProgress_clamped [OF h, where D = utcDay and tp = "''Calculus''" and sc = 80
        and lv = BEGINNER and m = False and now = dayOne and acts = "[]"]
    by (simp add: eval_defs)
qed

section \<open>Completed topics\<close>

text \<open>
  C8. In every profile reached from a fresh profile by a run of the transition
  operations, \<open>completedTopics\<close> contains every topic of \<open>quizScores\<close>. Every
  \<open>recordActivity\<close> call, and every run, preserves this; a call appends exactly one
  record to \<open>quizScores\<close>, and \<open>completedTopics\<close> becomes a duplicate-free list of the
  former topics and the topic of the lesson.
\<close>

theorem completedTopics_cover_quizScores:
  "topicsCovered (run D (freshProfile em dn t lvl ex created) ops)
   \<and> (topicsCovered u \<longrightarrow>
        topicsCovered (recordActivity D u tp sc lv m now) \<and> topicsCovered (run D u ops))
   \<and> quizScores (recordActivity D u tp sc lv m now)
       = quizScores u @ [\<lparr>topic = tp, score = sc, date = now, difficulty = lv\<rparr>]
   \<and> set (completedTopics (recordActivity D u tp sc lv m now))
       = insert tp (set (completedTopics u))
   \<and> distinct (completedTopics (recordActivity D u tp sc lv m now))"
proof -
  have "topicsCovered (freshProfile em dn t lvl ex created)"
    by (simp add: topicsCovered_def freshProfile_def)
  then have "topicsCovered (run D (freshProfile em dn t lvl ex created) ops)"
    by (rule topicsCovered_run)
  then show ?thesis
    by (simp add: topicsCovered_recordActivity topicsCovered_run quizScores_recordActivity
        completedTopics_recordActivity set_newSet distinct_newSet)
qed

text \<open>
  A run of six transitions keeps the invariant, and recording Algebra again leaves
  \<open>completedTopics\<close> as it is.
\<close>

theorem completedTopics_cover_quizScores_witness:
  "completedTopics busyLearner = [''Calculus'', ''Algebra'']
   \<and> map topic (quizScores busyLearner) = [''Calculus'', ''Algebra'', ''Calculus'']
   \<and> topicsCovered busyLearner
   \<and> topicsCovered (recordActivity utcDay busyLearner ''Algebra'' 50 ADVANCED False dayTwo)
   \<and> completedTopics (recordActivity utcDay busyLearner ''Algebra'' 50 ADVANCED False dayTwo)
       = [''Calculus'', ''Algebra'']"
proof -
  have v: "completedTopics busyLearner = [''Calculus'', ''Algebra'']
     \<and> map topic (quizScores busyLearner) = [''Calculus'', ''Algebra'', ''Calculus'']"
    by (simp add: busyLearner_def run_def eval_defs checkAndResetDailyLimit_def
        twentyFourHours_def incrementQuestionCount_def upgradeTier_def)
  then have c: "topicsCovered busyLearner"
    by (simp add: topicsCovered_def)
  from v c show ?thesis
    using completedTopics_cover_quizScores
      [where D = utcDay and u = busyLearner and tp = "''Algebra''" and sc = 50
        and lv = ADVANCED and m = False and now = dayTwo]
    by (simp add: completedTopics_recordActivity newSet_def)
qed

section \<open>Feature gating\<close>

text \<open>
  C9. The intermediate and advanced levels, the exam quiz and the document analysis are
  each locked if and only if the tier is FREE (the beginner level never is). The gates
  read nothing of the profile but its tier, and two tiers other than FREE are gated
  alike.
\<close>

theorem feature_gating_by_tier:
  "(isLevelLocked u INTERMEDIATE \<longleftrightarrow> tier u = FREE)
   \<and> (isLevelLocked u ADVANCED \<longleftrightarrow> tier u = FREE)
   \<and> \<not> isLevelLocked u BEGINNER
   \<and> (isGated t TabExam \<longleftrightarrow> t = FREE)
   \<and> (examPane t = LockScreen ''Exam Quizzes Restricted'' \<longleftrightarrow> t = FREE)
   \<and> (examPane t = QuizView \<longleftrightarrow> t \<noteq> FREE)
   \<and> (handleFileSelect u (Some f) = TriggerUpgrade PREMIUM \<longleftrightarrow> tier u = FREE)
   \<and> (handleFileSelect u (Some f) = StartAnalysis \<longleftrightarrow> tier u \<noteq> FREE)
   \<and> (tier u = tier v \<or> (tier u \<noteq> FREE \<and> tier v \<noteq> FREE) \<longrightarrow>
        isLevelLocked u lv = isLevelLocked v lv
        \<and> isGated (tier u) tabId = isGated (tier v) tabId
        \<and> examPane (tier u) = examPane (tier v)
        \<and> handleFileSelect u sel = handleFileSelect v sel)"
  by (auto simp: isLevelLocked_def isGated_def isFree_def examPane_def handleFileSelect_def
      isPremium_def split: option.splits)

text \<open>A PREMIUM and a PRO profile against a FREE one.\<close>

theorem feature_gating_by_tier_witness:
  "tier (upgradeTier learner PREMIUM) \<noteq> FREE \<and> tier (upgradeTier busyLearner PRO) \<noteq> FREE
   \<and> isLevelLocked (upgradeTier learner PREMIUM) ADVANCED
       = isLevelLocked (upgradeTier busyLearner PRO) ADVANCED
   \<and> \<not> isLevelLocked (upgradeTier learner PREMIUM) ADVANCED
   \<and> isLevelLocked learner ADVANCED
   \<and> examPane PREMIUM = examPane PRO
   \<and> handleFileSelect (upgradeTier learner PREMIUM) (Some ''notes.pdf'') = StartAnalysis
   \<and> handleFileSelect (upgradeTier busyLearner PRO) (Some ''notes.pdf'') = StartAnalysis
   \<and> handleFileSelect learner (Some ''notes.pdf'') = TriggerUpgrade PREMIUM"
  using
    feature_gating_by_tier
      [where u = "upgradeTier learner PREMIUM" and t = PREMIUM and f = "''notes.pdf''"
        and v = "upgradeTier busyLearner PRO" and lv = ADVANCED and tabId = TabExam
        and sel = "Some ''notes.pdf''"]
    feature_gating_by_tier
      [where u = "upgradeTier busyLearner PRO" and t = PRO and f = "''notes.pdf''"
        and v = "upgradeTier busyLearner PRO" and lv = ADVANCED and tabId = TabExam
        and sel = "Some ''notes.pdf''"]
    feature_gating_by_tier
      [where u = learner and t = FREE and f = "''notes.pdf''" and v = learner
        and lv = ADVANCED and tabId = TabExam and sel = "Some ''notes.pdf''"]
  by (simp add: upgradeTier_def learner_def freshProfile_def)

section \<open>Frame of \<open>recordActivity\<close>\<close>

text \<open>
  C10. \<open>recordActivity\<close> leaves \<open>email\<close>, \<open>tier\<close>, \<open>displayName\<close>, \<open>preferredLevel\<close>,
  \<open>examType\<close>, \<open>dailyQuestionCount\<close>, \<open>lastQuestionResetDate\<close> and \<open>uploadedDocuments\<close>
  unchanged: the result is the given profile with new values in \<open>learningProgress\<close>,
  \<open>completedTopics\<close>, \<open>quizScores\<close>, \<open>streak\<close>, \<open>lastActiveDate\<close> and \<open>weakTopics\<close> only.
\<close>

theorem recordActivity_frame:
  "email (recordActivity D u tp sc lv m now) = email u
   \<and> tier (recordActivity D u tp sc lv m now) = tier u
   \<and> displayName (recordActivity D u tp sc lv m now) = displayName u
   \<and> preferredLevel (recordActivity D u tp sc lv m now) = preferredLevel u
   \<and> examType (recordActivity D u tp sc lv m now) = examType u
   \<and> dailyQuestionCount (recordActivity D u tp sc lv m now) = dailyQuestionCount u
   \<and> lastQuestionResetDate (recordActivity D u tp sc lv m now) = lastQuestionResetDate u
   \<and> uploadedDocuments (recordActivity D u tp sc lv m now) = uploadedDocuments u
   \<and> recordActivity D u tp sc lv m now =
       u\<lparr>learningProgress := learningProgress (recordActivity D u tp sc lv m now),
         completedTopics := completedTopics (recordActivity D u tp sc lv m now),
         quizScores := quizScores (recordActivity D u tp sc lv m now),
         streak := streak (recordActivity D u tp sc lv m now),
         lastActiveDate := lastActiveDate (recordActivity D u tp sc lv m now),
         weakTopics := weakTopics (recordActivity D u tp sc lv m now)\<rparr>"
  by (simp add: recordActivity_def Let_def)

text \<open>The first activity of the example learner, field by field.\<close>

theorem recordActivity_frame_witness:
  "recordActivity utcDay learner ''Calculus'' 60 BEGINNER False dayOne =
     learner\<lparr>learningProgress := 5, completedTopics := [''Calculus''],
       quizScores := [\<lparr>topic = ''Calculus'', score = 60, date = dayOne, difficulty = BEGINNER\<rparr>],
       streak := 1, lastActiveDate := Some dayOne, weakTopics := [''Calculus'']\<rparr>
   \<and> email (recordActivity utcDay learner ''Calculus'' 60 BEGINNER False dayOne)
       = ''learner@example.org''"
  using recordActivity_frame [where D = utcDay and u = learner and tp = "''Calculus''"
      and sc = 60 and lv = BEGINNER and m = False and now = dayOne]
  by (simp add: eval_defs)

end
